theory Spec2Isabelle
  imports Main
begin

section \<open>The C fragment written by the allocation macros\<close>

text \<open>
  \<^verbatim>\<open>cmsis_os2_static_alloc.h\<close> consists of six function-like macros. Each one expands to a
  short run of file-scope declarations: a control block, for three of the kinds a backing
  array, and a constant attributes structure initialised positionally. The expansion is
  modelled as abstract syntax (this section) and then given the meaning C gives it (next
  section), so that every macro below can be read side by side with its source text.
\<close>

type_synonym ident = string

text \<open>
  The types the macros name. All but \<open>uint8_t\<close> are declared by the RTOS headers, which
  are not part of the repository. \<open>Named\<close> is a type passed by the caller as the
  \<open>type\<close> argument of the queue and pool macros.
\<close>

datatype ctype =
    StackType_t | StaticTask_t | StaticQueue_t | StaticSemaphore_t | StaticTimer_t
  | StaticMemoryPool_t | uint8_t | osPriority_t
  | osThreadAttr_t | osMessageQueueAttr_t | osMutexAttr_t | osSemaphoreAttr_t
  | osTimerAttr_t | osMemoryPoolAttr_t
  | Named string

text \<open>The expressions that occur in the expansions.\<close>

datatype cexpr =
    StrLit string            \<comment> \<open>\<^verbatim>\<open>#name\<close>: the spelling of the argument as a string literal\<close>
  | Num int                  \<comment> \<open>an integer constant\<close>
  | Const ident              \<comment> \<open>an enumeration constant of the RTOS header\<close>
  | Var ident                \<comment> \<open>\<^verbatim>\<open>x\<close>: an array designator, which decays to a pointer\<close>
  | AddrOf ident             \<comment> \<open>\<^verbatim>\<open>&x\<close>\<close>
  | SizeofObj ident          \<comment> \<open>\<^verbatim>\<open>sizeof(x)\<close>\<close>
  | SizeofType ctype         \<comment> \<open>\<^verbatim>\<open>sizeof(type)\<close>\<close>
  | Mul cexpr cexpr          \<comment> \<open>\<^verbatim>\<open>(a) * b\<close>\<close>
  | Cast ctype cexpr         \<comment> \<open>\<^verbatim>\<open>(T)(a)\<close>\<close>

datatype decl =
    StaticVar ctype ident                  \<comment> \<open>\<^verbatim>\<open>static T x;\<close>\<close>
  | StaticArr ctype ident cexpr            \<comment> \<open>\<^verbatim>\<open>static T x[len];\<close>\<close>
  | StaticConst ctype ident "cexpr list"   \<comment> \<open>\<^verbatim>\<open>static const T x = { e1, ..., en };\<close>\<close>

subsection \<open>The six macros\<close>

text \<open>
  Token pasting \<^verbatim>\<open>name##_cb\<close> is concatenation of spellings. The counts are integer
  constant expressions, represented by their value; the header documents them as a number
  of words and a number of items, hence \<open>nat\<close>. \<open>priority_level\<close> is an integer
  constant, documented as a thread priority of type \<open>osPriority_t\<close>; the macro casts it
  to that enumeration.
\<close>

definition OS_THREAD_STATIC :: "ident \<Rightarrow> nat \<Rightarrow> int \<Rightarrow> decl list" where
  "OS_THREAD_STATIC name stack_words priority_level =
    [StaticArr StackType_t (name @ ''_stack'') (Num (int stack_words)),
     StaticVar StaticTask_t (name @ ''_cb''),
     StaticConst osThreadAttr_t (name @ ''_attributes'')
       [StrLit name,
        Num 0,
        AddrOf (name @ ''_cb''),
        SizeofObj (name @ ''_cb''),
        Var (name @ ''_stack''),
        SizeofObj (name @ ''_stack''),
        Cast osPriority_t (Num priority_level),
        Num 0,
        Num 0]]"

definition OS_MESSAGE_QUEUE_STATIC :: "ident \<Rightarrow> nat \<Rightarrow> ctype \<Rightarrow> decl list" where
  "OS_MESSAGE_QUEUE_STATIC name queue_size type =
    [StaticVar StaticQueue_t (name @ ''_cb''),
     StaticArr uint8_t (name @ ''_queue_mem'') (Mul (Num (int queue_size)) (SizeofType type)),
     StaticConst osMessageQueueAttr_t (name @ ''_attributes'')
       [StrLit name,
        Num 0,
        AddrOf (name @ ''_cb''),
        SizeofObj (name @ ''_cb''),
        Var (name @ ''_queue_mem''),
        SizeofObj (name @ ''_queue_mem'')]]"

definition OS_MUTEX_STATIC :: "ident \<Rightarrow> decl list" where
  "OS_MUTEX_STATIC name =
    [StaticVar StaticSemaphore_t (name @ ''_cb''),
     StaticConst osMutexAttr_t (name @ ''_attributes'')
       [StrLit name,
        Const ''osMutexPrioInherit'',
        AddrOf (name @ ''_cb''),
        SizeofObj (name @ ''_cb'')]]"

definition OS_SEMAPHORE_STATIC :: "ident \<Rightarrow> decl list" where
  "OS_SEMAPHORE_STATIC name =
    [StaticVar StaticSemaphore_t (name @ ''_cb''),
     StaticConst osSemaphoreAttr_t (name @ ''_attributes'')
       [StrLit name,
        Num 0,
        AddrOf (name @ ''_cb''),
        SizeofObj (name @ ''_cb'')]]"

definition OS_TIMER_STATIC :: "ident \<Rightarrow> decl list" where
  "OS_TIMER_STATIC name =
    [StaticVar StaticTimer_t (name @ ''_cb''),
     StaticConst osTimerAttr_t (name @ ''_attributes'')
       [StrLit name,
        Num 0,
        AddrOf (name @ ''_cb''),
        SizeofObj (name @ ''_cb'')]]"

definition OS_MEMORY_POOL_STATIC :: "ident \<Rightarrow> nat \<Rightarrow> ctype \<Rightarrow> decl list" where
  "OS_MEMORY_POOL_STATIC name pool_size type =
    [StaticVar StaticMemoryPool_t (name @ ''_cb''),
     StaticArr uint8_t (name @ ''_mem'') (Mul (Num (int pool_size)) (SizeofType type)),
     StaticConst osMemoryPoolAttr_t (name @ ''_attributes'')
       [StrLit name,
        Num 0,
        AddrOf (name @ ''_cb''),
        SizeofObj (name @ ''_cb''),
        Var (name @ ''_mem''),
        SizeofObj (name @ ''_mem'')]]"

text \<open>One use of a macro, with its arguments, and the declarations it stands for.\<close>

datatype resource =
    Thread ident nat int
  | MessageQueue ident nat ctype
  | Mutex ident
  | Semaphore ident
  | Timer ident
  | MemoryPool ident nat ctype

fun generate :: "resource \<Rightarrow> decl list" where
  "generate (Thread name stack_words priority_level) = OS_THREAD_STATIC name stack_words priority_level"
| "generate (MessageQueue name queue_size type) = OS_MESSAGE_QUEUE_STATIC name queue_size type"
| "generate (Mutex name) = OS_MUTEX_STATIC name"
| "generate (Semaphore name) = OS_SEMAPHORE_STATIC name"
| "generate (Timer name) = OS_TIMER_STATIC name"
| "generate (MemoryPool name pool_size type) = OS_MEMORY_POOL_STATIC name pool_size type"

fun logical_name :: "resource \<Rightarrow> ident" where
  "logical_name (Thread name _ _) = name"
| "logical_name (MessageQueue name _ _) = name"
| "logical_name (Mutex name) = name"
| "logical_name (Semaphore name) = name"
| "logical_name (Timer name) = name"
| "logical_name (MemoryPool name _ _) = name"

text \<open>
  The identifiers an expansion declares, by the form of the declaration: the control block
  is the plain static object, the backing storage is the static array, the attributes
  record is the initialised constant.
\<close>

fun decl_ident :: "decl \<Rightarrow> ident" where
  "decl_ident (StaticVar ty x) = x"
| "decl_ident (StaticArr ty x len) = x"
| "decl_ident (StaticConst ty x inits) = x"

fun cb_idents :: "decl list \<Rightarrow> ident list" where
  "cb_idents [] = []"
| "cb_idents (StaticVar ty x # ds) = x # cb_idents ds"
| "cb_idents (d # ds) = cb_idents ds"

fun storage_idents :: "decl list \<Rightarrow> ident list" where
  "storage_idents [] = []"
| "storage_idents (StaticArr ty x len # ds) = x # storage_idents ds"
| "storage_idents (d # ds) = storage_idents ds"

fun attr_idents :: "decl list \<Rightarrow> ident list" where
  "attr_idents [] = []"
| "attr_idents (StaticConst ty x inits # ds) = x # attr_idents ds"
| "attr_idents (d # ds) = attr_idents ds"

section \<open>What the declarations mean\<close>

text \<open>
  What the compiler is and what the RTOS headers declare is not in the repository, so it is
  a parameter: the width of \<open>size_t\<close>, the size of every type other than \<open>uint8_t\<close>, the
  value of the enumeration constant \<open>osMutexPrioInherit\<close>, the width of the size members
  of the attribute structures and of the enumeration \<open>osPriority_t\<close> (both 32 bits in the
  published RTOS interface), whether arrays of length zero are accepted (ISO C rejects
  them, GNU C accepts them), and whether the header is compiled as C++ (the header wraps
  itself in \<^verbatim>\<open>extern "C"\<close> for that case).
\<close>

record target =
  size_t_bits :: nat
  sizeof_ext :: "ctype \<Rightarrow> nat"
  osMutexPrioInherit :: int
  size_member_bits :: nat
  osPriority_bits :: nat
  zero_length_arrays :: bool
  cplusplus :: bool

definition size_member_max :: "target \<Rightarrow> nat" where
  "size_member_max t = 2 ^ size_member_bits t"

text \<open>
  The size of a type. The RTOS is handed the size of a control block in a size member of
  the attributes structure, so the size of a control-block type is a value of that
  member's type: the target's number for it is read in that range.
\<close>

fun is_control_block :: "ctype \<Rightarrow> bool" where
  "is_control_block StaticTask_t = True"
| "is_control_block StaticQueue_t = True"
| "is_control_block StaticSemaphore_t = True"
| "is_control_block StaticTimer_t = True"
| "is_control_block StaticMemoryPool_t = True"
| "is_control_block _ = False"

definition sizeof_type :: "target \<Rightarrow> ctype \<Rightarrow> nat" where
  "sizeof_type t ty =
     (if ty = uint8_t then 1
      else if is_control_block ty then sizeof_ext t ty mod size_member_max t
      else sizeof_ext t ty)"

definition size_max :: "target \<Rightarrow> nat" where
  "size_max t = 2 ^ size_t_bits t"

text \<open>
  Values of constant expressions. A pointer is symbolic: \<open>VPtr x\<close> is the address of the
  static object \<open>x\<close> (the linker chooses the number). \<open>VSize\<close> is a value of type
  \<open>size_t\<close>, \<open>VInt\<close> the value of an integer constant.
\<close>

datatype cval = VStr string | VInt int | VSize nat | VPtr ident

text \<open>
  The members of the attribute structures. The second member is called \<open>AttrBits\<close> for
  every kind; \<open>StorageMem\<close> and \<open>StorageSize\<close> are the stack of a thread and the
  data area of a queue or pool.
\<close>

datatype member =
    Name | AttrBits | CbMem | CbSize | StorageMem | StorageSize | Priority
  | Reserved1 | Reserved2

text \<open>
  Modelled from the spec: the order of the members of the attribute structures, which
  \<^verbatim>\<open>cmsis_os2.h\<close> declares and the repository does not contain. Section 6 of the
  specification gives it: thread: name, reserved field, control-block reference and size,
  stack reference and size, priority, two reserved fields; queue and memory pool: name,
  reserved field, control-block reference and size, storage reference and size; mutex,
  semaphore and timer: name, kind-specific flag, control-block reference and size.
\<close>

fun members :: "ctype \<Rightarrow> member list" where
  "members osThreadAttr_t =
     [Name, AttrBits, CbMem, CbSize, StorageMem, StorageSize, Priority, Reserved1, Reserved2]"
| "members osMessageQueueAttr_t = [Name, AttrBits, CbMem, CbSize, StorageMem, StorageSize]"
| "members osMemoryPoolAttr_t = [Name, AttrBits, CbMem, CbSize, StorageMem, StorageSize]"
| "members osMutexAttr_t = [Name, AttrBits, CbMem, CbSize]"
| "members osSemaphoreAttr_t = [Name, AttrBits, CbMem, CbSize]"
| "members osTimerAttr_t = [Name, AttrBits, CbMem, CbSize]"
| "members _ = []"

text \<open>
  A static object: its element or structure type, its length when it is an array, its size
  in bytes, and the members an initialiser gave it (\<open>None\<close> for an object declared without
  initialiser, which is zero-filled).
\<close>

record obj =
  obj_type :: ctype
  obj_len :: "nat option"
  obj_bytes :: nat
  obj_fields :: "(member \<times> cval) list option"

type_synonym tunit = "(ident \<times> obj) list"

datatype cerror =
    Undeclared ident
  | NotConstant ident
  | BadOperand
  | BadArraySize ident
  | TooLarge ident
  | ExcessInitializers ident
  | Narrowing ident
  | Redefinition ident

text \<open>
  Conversion of an operand to \<open>size_t\<close>, as the usual arithmetic conversions do for the
  other operand of a product with a \<open>sizeof\<close>. An integer constant whose value fits
  \<open>size_t\<close> is taken to have a type no wider than \<open>size_t\<close>. One that does not fit has
  a wider type, the product is then taken in that type and is no valid array size on this
  target: it is refused here.
\<close>

fun to_size_t :: "target \<Rightarrow> cval \<Rightarrow> nat option" where
  "to_size_t t (VSize n) = Some (n mod size_max t)"
| "to_size_t t (VInt i) =
     (if i < int (size_max t) then Some (nat (i mod int (size_max t))) else None)"
| "to_size_t t _ = None"

text \<open>
  Conversion to the enumeration \<open>osPriority_t\<close>, a signed integer type of
  \<open>osPriority_bits\<close> bits: a value in its range is kept, any other wraps around into it.
  \<open>osPriority_value\<close> says that an integer is in that range.
\<close>

definition to_osPriority :: "target \<Rightarrow> int \<Rightarrow> int" where
  "to_osPriority t i =
     (i + 2 ^ (osPriority_bits t - 1)) mod 2 ^ osPriority_bits t - 2 ^ (osPriority_bits t - 1)"

definition osPriority_value :: "target \<Rightarrow> int \<Rightarrow> bool" where
  "osPriority_value t i =
     (0 < osPriority_bits t \<and>
      - (2 ^ (osPriority_bits t - 1)) \<le> i \<and> i < 2 ^ (osPriority_bits t - 1))"

text \<open>
  Evaluation of a constant expression among the objects declared so far. Arithmetic in
  \<open>size_t\<close> is unsigned and wraps around. The only cast of the header is the one to
  \<open>osPriority_t\<close>, which converts an integer to that type.
\<close>

fun eval :: "target \<Rightarrow> tunit \<Rightarrow> cexpr \<Rightarrow> cerror + cval" where
  "eval t env (StrLit s) = Inr (VStr s)"
| "eval t env (Num n) = Inr (VInt n)"
| "eval t env (Const c) =
     (if c = ''osMutexPrioInherit'' then Inr (VInt (osMutexPrioInherit t)) else Inl (Undeclared c))"
| "eval t env (Var x) =
     (case map_of env x of
        None \<Rightarrow> Inl (Undeclared x)
      | Some ob \<Rightarrow> (case obj_len ob of None \<Rightarrow> Inl (NotConstant x) | Some n \<Rightarrow> Inr (VPtr x)))"
| "eval t env (AddrOf x) =
     (case map_of env x of None \<Rightarrow> Inl (Undeclared x) | Some ob \<Rightarrow> Inr (VPtr x))"
| "eval t env (SizeofObj x) =
     (case map_of env x of None \<Rightarrow> Inl (Undeclared x) | Some ob \<Rightarrow> Inr (VSize (obj_bytes ob)))"
| "eval t env (SizeofType ty) = Inr (VSize (sizeof_type t ty))"
| "eval t env (Mul a b) =
     (case eval t env a of
        Inl e \<Rightarrow> Inl e
      | Inr va \<Rightarrow>
         (case eval t env b of
            Inl e \<Rightarrow> Inl e
          | Inr vb \<Rightarrow>
             (case (to_size_t t va, to_size_t t vb) of
                (Some x, Some y) \<Rightarrow> Inr (VSize ((x * y) mod size_max t))
              | _ \<Rightarrow> Inl BadOperand)))"
| "eval t env (Cast ty a) =
     (case eval t env a of
        Inl e \<Rightarrow> Inl e
      | Inr (VInt n) \<Rightarrow>
          if ty = osPriority_t then Inr (VInt (to_osPriority t n)) else Inl BadOperand
      | Inr _ \<Rightarrow> Inl BadOperand)"

fun eval_all :: "target \<Rightarrow> tunit \<Rightarrow> cexpr list \<Rightarrow> cerror + cval list" where
  "eval_all t env [] = Inr []"
| "eval_all t env (e # es) =
     (case eval t env e of
        Inl err \<Rightarrow> Inl err
      | Inr v \<Rightarrow> (case eval_all t env es of Inl err \<Rightarrow> Inl err | Inr vs \<Rightarrow> Inr (v # vs)))"

text \<open>
  Storing an initialiser in a member converts it to the member's type. A \<open>size_t\<close>
  value stored in a size member is reduced to the width of that member; in C++ a
  constant that does not fit is a narrowing conversion, which is an error. The other
  initialisers of the header (the string, the addresses, the constants \<open>0\<close> and
  \<open>osMutexPrioInherit\<close>, the priority after its cast) have their member's type.
\<close>

fun store_member :: "target \<Rightarrow> member \<Rightarrow> cval \<Rightarrow> cval option" where
  "store_member t m (VSize n) =
     (if m = CbSize \<or> m = StorageSize then
        (if cplusplus t \<and> size_member_max t \<le> n then None
         else Some (VSize (n mod size_member_max t)))
      else Some (VSize n))"
| "store_member t m v = Some v"

text \<open>
  Positional initialisation of the object \<open>x\<close>: the i-th initialiser goes to the i-th
  member, members left over are zero, an initialiser left over is an error.
\<close>

fun init_members ::
  "target \<Rightarrow> ident \<Rightarrow> member list \<Rightarrow> cval list \<Rightarrow> cerror + (member \<times> cval) list" where
  "init_members t x ms [] = Inr (map (\<lambda>m. (m, VInt 0)) ms)"
| "init_members t x [] (v # vs) = Inl (ExcessInitializers x)"
| "init_members t x (m # ms) (v # vs) =
     (case store_member t m v of
        None \<Rightarrow> Inl (Narrowing x)
      | Some v' \<Rightarrow>
         (case init_members t x ms vs of
            Inl e \<Rightarrow> Inl e
          | Inr fs \<Rightarrow> Inr ((m, v') # fs)))"

fun array_len :: "cval \<Rightarrow> int option" where
  "array_len (VInt i) = Some i"
| "array_len (VSize n) = Some (int n)"
| "array_len _ = None"

text \<open>
  Entering an object under its identifier. In C a declaration without initialiser is a
  tentative definition and may be repeated with the same type; every other second
  declaration of an identifier, and every one in C++, is an error.
\<close>

definition add_object :: "target \<Rightarrow> tunit \<Rightarrow> ident \<Rightarrow> obj \<Rightarrow> cerror + tunit" where
  "add_object t env x ob =
     (case map_of env x of
        None \<Rightarrow> Inr (env @ [(x, ob)])
      | Some ob' \<Rightarrow>
          if \<not> cplusplus t \<and> obj_fields ob = None \<and> ob' = ob then Inr env
          else Inl (Redefinition x))"

text \<open>
  One declaration. An array needs a length that is an integer constant, not negative and
  (unless the extension is on) not zero, and a size in bytes that \<open>size_t\<close> can hold,
  since \<open>sizeof\<close> must be able to return it.
\<close>

fun elab_decl :: "target \<Rightarrow> tunit \<Rightarrow> decl \<Rightarrow> cerror + tunit" where
  "elab_decl t env (StaticVar ty x) =
     add_object t env x
       \<lparr>obj_type = ty, obj_len = None, obj_bytes = sizeof_type t ty, obj_fields = None\<rparr>"
| "elab_decl t env (StaticArr ty x len) =
     (case eval t env len of
        Inl e \<Rightarrow> Inl e
      | Inr v \<Rightarrow>
         (case array_len v of
            None \<Rightarrow> Inl (BadArraySize x)
          | Some i \<Rightarrow>
              if i < 0 \<or> (i = 0 \<and> \<not> zero_length_arrays t) then Inl (BadArraySize x)
              else if size_max t \<le> nat i * sizeof_type t ty then Inl (TooLarge x)
              else add_object t env x
                     \<lparr>obj_type = ty, obj_len = Some (nat i),
                      obj_bytes = nat i * sizeof_type t ty, obj_fields = None\<rparr>))"
| "elab_decl t env (StaticConst ty x inits) =
     (case eval_all t env inits of
        Inl e \<Rightarrow> Inl e
      | Inr vs \<Rightarrow>
         (case init_members t x (members ty) vs of
            Inl e \<Rightarrow> Inl e
          | Inr fs \<Rightarrow>
              add_object t env x
                \<lparr>obj_type = ty, obj_len = None, obj_bytes = sizeof_type t ty,
                 obj_fields = Some fs\<rparr>))"

fun elab_decls :: "target \<Rightarrow> tunit \<Rightarrow> decl list \<Rightarrow> cerror + tunit" where
  "elab_decls t env [] = Inr env"
| "elab_decls t env (d # ds) =
     (case elab_decl t env d of Inl e \<Rightarrow> Inl e | Inr env' \<Rightarrow> elab_decls t env' ds)"

definition elaborate :: "target \<Rightarrow> decl list \<Rightarrow> cerror + tunit" where
  "elaborate t ds = elab_decls t [] ds"

subsection \<open>Reading the result\<close>

definition field :: "tunit \<Rightarrow> ident \<Rightarrow> member \<Rightarrow> cval option" where
  "field env x m =
     (case map_of env x of
        None \<Rightarrow> None
      | Some ob \<Rightarrow> (case obj_fields ob of None \<Rightarrow> None | Some fs \<Rightarrow> map_of fs m))"

definition fields :: "tunit \<Rightarrow> ident \<Rightarrow> (member \<times> cval) list" where
  "fields env x =
     (case map_of env x of
        None \<Rightarrow> []
      | Some ob \<Rightarrow> (case obj_fields ob of None \<Rightarrow> [] | Some fs \<Rightarrow> fs))"

definition region_bytes :: "tunit \<Rightarrow> ident \<Rightarrow> nat option" where
  "region_bytes env x = map_option obj_bytes (map_of env x)"

definition region_len :: "tunit \<Rightarrow> ident \<Rightarrow> nat option" where
  "region_len env x = (case map_of env x of None \<Rightarrow> None | Some ob \<Rightarrow> obj_len ob)"

definition region_type :: "tunit \<Rightarrow> ident \<Rightarrow> ctype option" where
  "region_type env x = map_option obj_type (map_of env x)"

text \<open>
  Two targets for the examples, both compiling C with 32-bit size members and a 32-bit
  \<open>osPriority_t\<close>. On the first \<open>size_t\<close> has 32 bits and a stack word 4 bytes, as on a
  Cortex-M port of the RTOS; on the second \<open>size_t\<close> has 64 bits and a stack word 8
  bytes. The other sizes are illustrative (they depend on the kernel configuration).
\<close>

definition example_sizes :: "ctype \<Rightarrow> nat" where
  "example_sizes ty =
     (case ty of
        StackType_t \<Rightarrow> 4 | StaticTask_t \<Rightarrow> 92 | StaticQueue_t \<Rightarrow> 80
      | StaticSemaphore_t \<Rightarrow> 80 | StaticTimer_t \<Rightarrow> 44 | StaticMemoryPool_t \<Rightarrow> 104
      | uint8_t \<Rightarrow> 1 | osPriority_t \<Rightarrow> 4
      | osThreadAttr_t \<Rightarrow> 36 | osMessageQueueAttr_t \<Rightarrow> 24 | osMutexAttr_t \<Rightarrow> 16
      | osSemaphoreAttr_t \<Rightarrow> 16 | osTimerAttr_t \<Rightarrow> 16 | osMemoryPoolAttr_t \<Rightarrow> 24
      | Named s \<Rightarrow> (if s = ''uint32_t'' then 4 else if s = ''uint16_t'' then 2 else 1))"

definition example_target :: target where
  "example_target =
     \<lparr>size_t_bits = 32, sizeof_ext = example_sizes, osMutexPrioInherit = 1,
      size_member_bits = 32, osPriority_bits = 32,
      zero_length_arrays = False, cplusplus = False\<rparr>"

definition example_sizes64 :: "ctype \<Rightarrow> nat" where
  "example_sizes64 ty =
     (case ty of
        StackType_t \<Rightarrow> 8 | StaticTask_t \<Rightarrow> 168 | StaticQueue_t \<Rightarrow> 136
      | StaticSemaphore_t \<Rightarrow> 136 | StaticTimer_t \<Rightarrow> 80 | StaticMemoryPool_t \<Rightarrow> 176
      | uint8_t \<Rightarrow> 1 | osPriority_t \<Rightarrow> 4
      | osThreadAttr_t \<Rightarrow> 64 | osMessageQueueAttr_t \<Rightarrow> 40 | osMutexAttr_t \<Rightarrow> 32
      | osSemaphoreAttr_t \<Rightarrow> 32 | osTimerAttr_t \<Rightarrow> 32 | osMemoryPoolAttr_t \<Rightarrow> 40
      | Named s \<Rightarrow> (if s = ''uint32_t'' then 4 else if s = ''uint16_t'' then 2 else 1))"

definition example_target64 :: target where
  "example_target64 =
     \<lparr>size_t_bits = 64, sizeof_ext = example_sizes64, osMutexPrioInherit = 1,
      size_member_bits = 32, osPriority_bits = 32,
      zero_length_arrays = False, cplusplus = False\<rparr>"

subsection \<open>Vocabulary of the properties\<close>

text \<open>The kinds whose macro declares a backing array, and the kind whose flag is set.\<close>

fun has_storage :: "resource \<Rightarrow> bool" where
  "has_storage (Thread name stack_words priority_level) = True"
| "has_storage (MessageQueue name queue_size type) = True"
| "has_storage (MemoryPool name pool_size type) = True"
| "has_storage (Mutex name) = False"
| "has_storage (Semaphore name) = False"
| "has_storage (Timer name) = False"

fun is_mutex :: "resource \<Rightarrow> bool" where
  "is_mutex (Mutex name) = True"
| "is_mutex (Thread name stack_words priority_level) = False"
| "is_mutex (MessageQueue name queue_size type) = False"
| "is_mutex (MemoryPool name pool_size type) = False"
| "is_mutex (Semaphore name) = False"
| "is_mutex (Timer name) = False"

text \<open>
  The one pair of uses whose pasted identifiers meet although the names differ: the queue
  macro pastes \<^verbatim>\<open>_queue_mem\<close>, the pool macro \<^verbatim>\<open>_mem\<close>, so a queue called \<open>n\<close> and a
  pool called \<open>n_queue\<close> both declare \<open>n_queue_mem\<close>.
\<close>

fun queue_pool_clash :: "resource \<Rightarrow> resource \<Rightarrow> bool" where
  "queue_pool_clash (MessageQueue n queue_size type) (MemoryPool m pool_size type') =
     (m = n @ ''_queue'')"
| "queue_pool_clash r r' = False"

section \<open>What each macro elaborates to\<close>

lemma size_max_pos: "0 < size_max t"
  by (simp add: size_max_def)

lemma size_member_max_pos: "0 < size_member_max t"
  by (simp add: size_member_max_def)

lemma sizeof_uint8_t: "sizeof_type t uint8_t = 1"
  by (simp add: sizeof_type_def)

lemma sizeof_control_block:
  "is_control_block ty \<Longrightarrow> sizeof_type t ty mod size_member_max t = sizeof_type t ty"
  "is_control_block ty \<Longrightarrow> \<not> size_member_max t \<le> sizeof_type t ty"
  using size_member_max_pos [of t] by (auto simp: sizeof_type_def not_le)

lemma to_osPriority_value: "osPriority_value t i \<Longrightarrow> to_osPriority t i = i"
proof -
  assume v: "osPriority_value t i"
  define h :: int where "h = 2 ^ (osPriority_bits t - 1)"
  from v have pos: "0 < osPriority_bits t" by (simp add: osPriority_value_def)
  then have "osPriority_bits t = Suc (osPriority_bits t - 1)" by simp
  then have "(2::int) ^ osPriority_bits t = 2 * 2 ^ (osPriority_bits t - 1)"
    by (metis power_Suc)
  then have m: "(2::int) ^ osPriority_bits t = 2 * h" by (simp add: h_def)
  from v have r: "0 \<le> i + h" "i + h < 2 * h" by (simp_all add: osPriority_value_def h_def)
  then have "(i + h) mod (2 * h) - h = i" by simp
  then show ?thesis unfolding to_osPriority_def m h_def [symmetric] .
qed

lemma elaborate_thread:
  "elaborate t (OS_THREAD_STATIC name n p) =
    (if n = 0 \<and> \<not> zero_length_arrays t then Inl (BadArraySize (name @ ''_stack''))
     else if size_max t \<le> n * sizeof_type t StackType_t then Inl (TooLarge (name @ ''_stack''))
     else if cplusplus t \<and> size_member_max t \<le> n * sizeof_type t StackType_t
       then Inl (Narrowing (name @ ''_attributes''))
     else Inr
       [(name @ ''_stack'',
         \<lparr>obj_type = StackType_t, obj_len = Some n,
          obj_bytes = n * sizeof_type t StackType_t, obj_fields = None\<rparr>),
        (name @ ''_cb'',
         \<lparr>obj_type = StaticTask_t, obj_len = None,
          obj_bytes = sizeof_type t StaticTask_t, obj_fields = None\<rparr>),
        (name @ ''_attributes'',
         \<lparr>obj_type = osThreadAttr_t, obj_len = None,
          obj_bytes = sizeof_type t osThreadAttr_t,
          obj_fields = Some
            [(Name, VStr name), (AttrBits, VInt 0),
             (CbMem, VPtr (name @ ''_cb'')), (CbSize, VSize (sizeof_type t StaticTask_t)),
             (StorageMem, VPtr (name @ ''_stack'')),
             (StorageSize, VSize ((n * sizeof_type t StackType_t) mod size_member_max t)),
             (Priority, VInt (to_osPriority t p)), (Reserved1, VInt 0),
             (Reserved2, VInt 0)]\<rparr>)])"
  by (simp add: elaborate_def OS_THREAD_STATIC_def add_object_def sizeof_control_block)

lemma eval_count_times_sizeof:
  "q < size_max t \<Longrightarrow>
   eval t env (Mul (Num (int q)) (SizeofType ty)) =
     Inr (VSize ((q * sizeof_type t ty) mod size_max t))"
  by (simp add: nat_mod_distrib mod_mult_eq mod_mult_right_eq flip: zmod_int)

lemma eval_wide_count_times_sizeof:
  "size_max t \<le> q \<Longrightarrow> eval t env (Mul (Num (int q)) (SizeofType ty)) = Inl BadOperand"
  by simp

lemma wrapped_below_size_max: "\<not> size_max t \<le> n mod size_max t"
  using size_max_pos [of t] by (simp add: not_le)

lemma elaborate_queue:
  "elaborate t (OS_MESSAGE_QUEUE_STATIC name q ty) =
    (if size_max t \<le> q then Inl BadOperand
     else if (q * sizeof_type t ty) mod size_max t = 0 \<and> \<not> zero_length_arrays t
       then Inl (BadArraySize (name @ ''_queue_mem''))
     else if cplusplus t \<and> size_member_max t \<le> (q * sizeof_type t ty) mod size_max t
       then Inl (Narrowing (name @ ''_attributes''))
     else Inr
       [(name @ ''_cb'',
         \<lparr>obj_type = StaticQueue_t, obj_len = None,
          obj_bytes = sizeof_type t StaticQueue_t, obj_fields = None\<rparr>),
        (name @ ''_queue_mem'',
         \<lparr>obj_type = uint8_t, obj_len = Some ((q * sizeof_type t ty) mod size_max t),
          obj_bytes = (q * sizeof_type t ty) mod size_max t, obj_fields = None\<rparr>),
        (name @ ''_attributes'',
         \<lparr>obj_type = osMessageQueueAttr_t, obj_len = None,
          obj_bytes = sizeof_type t osMessageQueueAttr_t,
          obj_fields = Some
            [(Name, VStr name), (AttrBits, VInt 0),
             (CbMem, VPtr (name @ ''_cb'')), (CbSize, VSize (sizeof_type t StaticQueue_t)),
             (StorageMem, VPtr (name @ ''_queue_mem'')),
             (StorageSize,
              VSize ((q * sizeof_type t ty) mod size_max t mod size_member_max t))]\<rparr>)])"
proof (cases "size_max t \<le> q")
  case True
  then show ?thesis
    by (simp add: elaborate_def OS_MESSAGE_QUEUE_STATIC_def add_object_def
        eval_wide_count_times_sizeof del: eval.simps)
next
  case False
  then have q: "q < size_max t" by simp
  show ?thesis using False
    by (simp add: elaborate_def OS_MESSAGE_QUEUE_STATIC_def add_object_def
        eval_count_times_sizeof [OF q] sizeof_uint8_t wrapped_below_size_max
        sizeof_control_block del: eval.simps(8))
qed

lemma elaborate_pool:
  "elaborate t (OS_MEMORY_POOL_STATIC name q ty) =
    (if size_max t \<le> q then Inl BadOperand
     else if (q * sizeof_type t ty) mod size_max t = 0 \<and> \<not> zero_length_arrays t
       then Inl (BadArraySize (name @ ''_mem''))
     else if cplusplus t \<and> size_member_max t \<le> (q * sizeof_type t ty) mod size_max t
       then Inl (Narrowing (name @ ''_attributes''))
     else Inr
       [(name @ ''_cb'',
         \<lparr>obj_type = StaticMemoryPool_t, obj_len = None,
          obj_bytes = sizeof_type t StaticMemoryPool_t, obj_fields = None\<rparr>),
        (name @ ''_mem'',
         \<lparr>obj_type = uint8_t, obj_len = Some ((q * sizeof_type t ty) mod size_max t),
          obj_bytes = (q * sizeof_type t ty) mod size_max t, obj_fields = None\<rparr>),
        (name @ ''_attributes'',
         \<lparr>obj_type = osMemoryPoolAttr_t, obj_len = None,
          obj_bytes = sizeof_type t osMemoryPoolAttr_t,
          obj_fields = Some
            [(Name, VStr name), (AttrBits, VInt 0),
             (CbMem, VPtr (name @ ''_cb'')), (CbSize, VSize (sizeof_type t StaticMemoryPool_t)),
             (StorageMem, VPtr (name @ ''_mem'')),
             (StorageSize,
              VSize ((q * sizeof_type t ty) mod size_max t mod size_member_max t))]\<rparr>)])"
proof (cases "size_max t \<le> q")
  case True
  then show ?thesis
    by (simp add: elaborate_def OS_MEMORY_POOL_STATIC_def add_object_def
        eval_wide_count_times_sizeof del: eval.simps)
next
  case False
  then have q: "q < size_max t" by simp
  show ?thesis using False
    by (simp add: elaborate_def OS_MEMORY_POOL_STATIC_def add_object_def
        eval_count_times_sizeof [OF q] sizeof_uint8_t wrapped_below_size_max
        sizeof_control_block del: eval.simps(8))
qed

lemma elaborate_mutex:
  "elaborate t (OS_MUTEX_STATIC name) =
     Inr
       [(name @ ''_cb'',
         \<lparr>obj_type = StaticSemaphore_t, obj_len = None,
          obj_bytes = sizeof_type t StaticSemaphore_t, obj_fields = None\<rparr>),
        (name @ ''_attributes'',
         \<lparr>obj_type = osMutexAttr_t, obj_len = None,
          obj_bytes = sizeof_type t osMutexAttr_t,
          obj_fields = Some
            [(Name, VStr name), (AttrBits, VInt (osMutexPrioInherit t)),
             (CbMem, VPtr (name @ ''_cb'')),
             (CbSize, VSize (sizeof_type t StaticSemaphore_t))]\<rparr>)]"
  by (simp add: elaborate_def OS_MUTEX_STATIC_def add_object_def sizeof_control_block)

lemma elaborate_semaphore:
  "elaborate t (OS_SEMAPHORE_STATIC name) =
     Inr
       [(name @ ''_cb'',
         \<lparr>obj_type = StaticSemaphore_t, obj_len = None,
          obj_bytes = sizeof_type t StaticSemaphore_t, obj_fields = None\<rparr>),
        (name @ ''_attributes'',
         \<lparr>obj_type = osSemaphoreAttr_t, obj_len = None,
          obj_bytes = sizeof_type t osSemaphoreAttr_t,
          obj_fields = Some
            [(Name, VStr name), (AttrBits, VInt 0),
             (CbMem, VPtr (name @ ''_cb'')),
             (CbSize, VSize (sizeof_type t StaticSemaphore_t))]\<rparr>)]"
  by (simp add: elaborate_def OS_SEMAPHORE_STATIC_def add_object_def sizeof_control_block)

lemma elaborate_timer:
  "elaborate t (OS_TIMER_STATIC name) =
     Inr
       [(name @ ''_cb'',
         \<lparr>obj_type = StaticTimer_t, obj_len = None,
          obj_bytes = sizeof_type t StaticTimer_t, obj_fields = None\<rparr>),
        (name @ ''_attributes'',
         \<lparr>obj_type = osTimerAttr_t, obj_len = None,
          obj_bytes = sizeof_type t osTimerAttr_t,
          obj_fields = Some
            [(Name, VStr name), (AttrBits, VInt 0),
             (CbMem, VPtr (name @ ''_cb'')),
             (CbSize, VSize (sizeof_type t StaticTimer_t))]\<rparr>)]"
  by (simp add: elaborate_def OS_TIMER_STATIC_def add_object_def sizeof_control_block)

lemmas elaborate_macro =
  elaborate_thread elaborate_queue elaborate_pool elaborate_mutex elaborate_semaphore
  elaborate_timer

lemmas macro_defs =
  OS_THREAD_STATIC_def OS_MESSAGE_QUEUE_STATIC_def OS_MEMORY_POOL_STATIC_def
  OS_MUTEX_STATIC_def OS_SEMAPHORE_STATIC_def OS_TIMER_STATIC_def

lemmas reading_defs = field_def fields_def region_bytes_def region_len_def region_type_def

lemmas example_defs =
  example_target_def example_sizes_def example_target64_def example_sizes64_def
  size_max_def size_member_max_def sizeof_type_def to_osPriority_def osPriority_value_def

lemma cb_idents_generate: "cb_idents (generate r) = [logical_name r @ ''_cb'']"
  by (cases r) (simp_all add: macro_defs)

lemma attr_idents_generate: "attr_idents (generate r) = [logical_name r @ ''_attributes'']"
  by (cases r) (simp_all add: macro_defs)

lemma storage_idents_generate:
  "storage_idents (generate r) =
     (case r of
        Thread name w p \<Rightarrow> [name @ ''_stack'']
      | MessageQueue name q ty \<Rightarrow> [name @ ''_queue_mem'']
      | MemoryPool name q ty \<Rightarrow> [name @ ''_mem'']
      | _ \<Rightarrow> [])"
  by (cases r) (simp_all add: macro_defs)

subsection \<open>Pasted identifiers\<close>

text \<open>
  Two pasted identifiers with different suffixes differ, whatever the names, with one
  exception: \<^verbatim>\<open>_mem\<close> is the end of \<^verbatim>\<open>_queue_mem\<close>.
\<close>

lemma paste_eq_rev: "(a @ s = b @ s') = (rev s @ rev a = rev s' @ rev b)"
  by (metis rev_append rev_is_rev_conv)

lemma paste_distinct:
  "a @ ''_cb'' \<noteq> b @ ''_stack''"
  "a @ ''_cb'' \<noteq> b @ ''_attributes''"
  "a @ ''_cb'' \<noteq> b @ ''_queue_mem''"
  "a @ ''_cb'' \<noteq> b @ ''_mem''"
  "a @ ''_stack'' \<noteq> b @ ''_cb''"
  "a @ ''_stack'' \<noteq> b @ ''_attributes''"
  "a @ ''_stack'' \<noteq> b @ ''_queue_mem''"
  "a @ ''_stack'' \<noteq> b @ ''_mem''"
  "a @ ''_attributes'' \<noteq> b @ ''_cb''"
  "a @ ''_attributes'' \<noteq> b @ ''_stack''"
  "a @ ''_attributes'' \<noteq> b @ ''_queue_mem''"
  "a @ ''_attributes'' \<noteq> b @ ''_mem''"
  "a @ ''_queue_mem'' \<noteq> b @ ''_cb''"
  "a @ ''_queue_mem'' \<noteq> b @ ''_stack''"
  "a @ ''_queue_mem'' \<noteq> b @ ''_attributes''"
  "a @ ''_mem'' \<noteq> b @ ''_cb''"
  "a @ ''_mem'' \<noteq> b @ ''_stack''"
  "a @ ''_mem'' \<noteq> b @ ''_attributes''"
  by (subst paste_eq_rev, simp)+

lemma paste_queue_mem:
  "(a @ ''_mem'' = b @ ''_queue_mem'') = (a = b @ ''_queue'')"
  "(b @ ''_queue_mem'' = a @ ''_mem'') = (a = b @ ''_queue'')"
proof -
  show 1: "(a @ ''_mem'' = b @ ''_queue_mem'') = (a = b @ ''_queue'')"
    by simp
  show "(b @ ''_queue_mem'' = a @ ''_mem'') = (a = b @ ''_queue'')"
    using 1 by (metis (no_types))
qed

lemma idents_generate:
  "map decl_ident (generate r) =
     (case r of
        Thread name w p \<Rightarrow> [name @ ''_stack'', name @ ''_cb'', name @ ''_attributes'']
      | MessageQueue name q ty \<Rightarrow> [name @ ''_cb'', name @ ''_queue_mem'', name @ ''_attributes'']
      | MemoryPool name q ty \<Rightarrow> [name @ ''_cb'', name @ ''_mem'', name @ ''_attributes'']
      | Mutex name \<Rightarrow> [name @ ''_cb'', name @ ''_attributes'']
      | Semaphore name \<Rightarrow> [name @ ''_cb'', name @ ''_attributes'']
      | Timer name \<Rightarrow> [name @ ''_cb'', name @ ''_attributes''])"
  by (cases r) (simp_all add: macro_defs)

section \<open>Properties of the generated descriptors\<close>

text \<open>
  The general properties below are about a macro use that compiles: \<open>elaborate\<close> returns
  the objects it declares. The examples use \<open>example_target\<close> and \<open>example_target64\<close>.
\<close>

subsection \<open>Size of the backing storage of a queue or pool\<close>

text \<open>
  C1. The storage of a queue or memory pool should have the size of \<open>count\<close> elements,
  the product of the element count and the element size; the header documents
  \<open>queue_size\<close> as the number of items in the queue. The macro writes the length of the
  array as \<^verbatim>\<open>(queue_size) * sizeof(type)\<close>, a product in \<open>size_t\<close> that nothing guards:
  on the 32-bit target a queue of 1073741825 elements of 4 bytes compiles, and its
  storage has 4 bytes, room for one element, where the product is 4294967300.
\<close>

theorem queue_storage_wraps_around:
  "elaborate example_target
     (generate (MessageQueue ''evt_q'' 1073741825 (Named ''uint32_t''))) =
   Inr
     [(''evt_q_cb'',
       \<lparr>obj_type = StaticQueue_t, obj_len = None, obj_bytes = 80, obj_fields = None\<rparr>),
      (''evt_q_queue_mem'',
       \<lparr>obj_type = uint8_t, obj_len = Some 4, obj_bytes = 4, obj_fields = None\<rparr>),
      (''evt_q_attributes'',
       \<lparr>obj_type = osMessageQueueAttr_t, obj_len = None, obj_bytes = 24,
        obj_fields = Some
          [(Name, VStr ''evt_q''), (AttrBits, VInt 0),
           (CbMem, VPtr ''evt_q_cb''), (CbSize, VSize 80),
           (StorageMem, VPtr ''evt_q_queue_mem''), (StorageSize, VSize 4)]\<rparr>)] \<and>
   1073741825 * sizeof_type example_target (Named ''uint32_t'') = 4294967300"
  by (simp add: elaborate_queue example_defs)

text \<open>
  Where the product fits \<open>size_t\<close> the storage is exactly the product, with nothing
  added, and the storage-size member reads the same number if it fits that member.
\<close>

lemma storage_size_when_product_fits:
  assumes "elaborate t (generate r) = Inr env"
    and "r = MessageQueue name count ty \<or> r = MemoryPool name count ty"
    and "count * sizeof_type t ty < size_max t"
  shows "\<exists>s. storage_idents (generate r) = [s] \<and>
           region_type env s = Some uint8_t \<and>
           region_bytes env s = Some (count * sizeof_type t ty) \<and>
           (count * sizeof_type t ty < size_member_max t \<longrightarrow>
              field env (name @ ''_attributes'') StorageSize =
                Some (VSize (count * sizeof_type t ty)))"
  using assms
  by (auto simp: storage_idents_generate elaborate_macro reading_defs split: if_splits)

text \<open>
  The example of the specification: capacity 8, elements of 4 bytes, 32 bytes of storage
  and a storage-size member that reads 32.
\<close>

lemma storage_size_example:
  "\<exists>env. elaborate example_target (generate (MessageQueue ''evt_q'' 8 (Named ''uint32_t''))) = Inr env \<and>
     region_bytes env ''evt_q_queue_mem'' = Some 32 \<and>
     field env ''evt_q_attributes'' StorageSize = Some (VSize 32)"
  by (simp add: elaborate_queue example_defs reading_defs)

subsection \<open>Storage reference and size\<close>

text \<open>
  C2, as amended. For the kinds that declare a backing array (thread, message queue, memory
  pool) the storage member of the attributes record is the address of that array, and the
  storage-size member is its size whenever that size fits the member. Mutex, semaphore and
  timer declare no backing array, and their records consist of name, flag, control-block
  reference and control-block size only: in particular the semaphore record has no member
  for a maximum or initial count (the header's comment tells the caller to pass both to
  \<^verbatim>\<open>osSemaphoreNew\<close>).
\<close>

theorem storage_reference_and_size:
  assumes "elaborate t (generate r) = Inr env"
  shows "(has_storage r \<longrightarrow>
            (\<exists>s n. storage_idents (generate r) = [s] \<and>
               field env (logical_name r @ ''_attributes'') StorageMem = Some (VPtr s) \<and>
               region_bytes env s = Some n \<and>
               (n < size_member_max t \<longrightarrow>
                  field env (logical_name r @ ''_attributes'') StorageSize =
                    Some (VSize n)))) \<and>
         (\<not> has_storage r \<longrightarrow>
            storage_idents (generate r) = [] \<and>
            map fst (fields env (logical_name r @ ''_attributes'')) =
              [Name, AttrBits, CbMem, CbSize])"
proof -
  have ids: "storage_idents (generate r) =
     (case r of
        Thread name w p \<Rightarrow> [name @ ''_stack'']
      | MessageQueue name q ty \<Rightarrow> [name @ ''_queue_mem'']
      | MemoryPool name q ty \<Rightarrow> [name @ ''_mem'']
      | _ \<Rightarrow> [])"
    by (rule storage_idents_generate)
  show ?thesis
    using assms unfolding ids
    by (cases r) (auto simp: elaborate_macro reading_defs split: if_splits)
qed

theorem storage_reference_and_size_witness:
  "(\<exists>env. elaborate example_target (generate (Thread ''worker'' 256 24)) = Inr env \<and>
      has_storage (Thread ''worker'' 256 24) \<and>
      field env ''worker_attributes'' StorageMem = Some (VPtr ''worker_stack'') \<and>
      region_bytes env ''worker_stack'' = Some 1024 \<and>
      1024 < size_member_max example_target \<and>
      field env ''worker_attributes'' StorageSize = Some (VSize 1024)) \<and>
   (\<exists>env. elaborate example_target (generate (Semaphore ''sem'')) = Inr env \<and>
      \<not> has_storage (Semaphore ''sem'') \<and>
      storage_idents (generate (Semaphore ''sem'')) = [] \<and>
      map fst (fields env ''sem_attributes'') = [Name, AttrBits, CbMem, CbSize])"
proof -
  obtain env where h: "elaborate example_target (generate (Thread ''worker'' 256 24)) = Inr env"
    by (simp add: elaborate_thread example_defs)
  obtain env' where h': "elaborate example_target (generate (Semaphore ''sem'')) = Inr env'"
    by (simp add: elaborate_semaphore)
  have s: "storage_idents (generate (Thread ''worker'' 256 24)) = [''worker_stack'']"
    by (simp add: macro_defs)
  have b: "region_bytes env ''worker_stack'' = Some 1024"
    using h by (auto simp: elaborate_thread example_defs reading_defs)
  have m: "1024 < size_member_max example_target"
    by (simp add: example_defs)
  from storage_reference_and_size [OF h] s b m
  have 1: "field env ''worker_attributes'' StorageMem = Some (VPtr ''worker_stack'') \<and>
           field env ''worker_attributes'' StorageSize = Some (VSize 1024)"
    by auto
  from storage_reference_and_size [OF h']
  have 2: "storage_idents (generate (Semaphore ''sem'')) = [] \<and>
           map fst (fields env' ''sem_attributes'') = [Name, AttrBits, CbMem, CbSize]"
    by simp
  from h h' b m 1 2 show ?thesis by auto
qed

text \<open>
  C2 as stated names every kind but the semaphore, and every size. A mutex is such a kind,
  and its macro declares no storage and gives the record no storage member. And on the
  64-bit target a queue of 1073741825 elements of 4 bytes has 4294967300 bytes of
  storage, which the 32-bit storage-size member cannot hold: it reads 4.
\<close>

theorem mutex_without_storage_counterexample:
  "storage_idents (generate (Mutex ''m'')) = [] \<and>
   elaborate example_target (generate (Mutex ''m'')) =
   Inr
     [(''m_cb'',
       \<lparr>obj_type = StaticSemaphore_t, obj_len = None, obj_bytes = 80, obj_fields = None\<rparr>),
      (''m_attributes'',
       \<lparr>obj_type = osMutexAttr_t, obj_len = None, obj_bytes = 16,
        obj_fields = Some
          [(Name, VStr ''m''), (AttrBits, VInt 1),
           (CbMem, VPtr ''m_cb''), (CbSize, VSize 80)]\<rparr>)] \<and>
   elaborate example_target64
     (generate (MessageQueue ''evt_q'' 1073741825 (Named ''uint32_t''))) =
   Inr
     [(''evt_q_cb'',
       \<lparr>obj_type = StaticQueue_t, obj_len = None, obj_bytes = 136, obj_fields = None\<rparr>),
      (''evt_q_queue_mem'',
       \<lparr>obj_type = uint8_t, obj_len = Some 4294967300, obj_bytes = 4294967300,
        obj_fields = None\<rparr>),
      (''evt_q_attributes'',
       \<lparr>obj_type = osMessageQueueAttr_t, obj_len = None, obj_bytes = 40,
        obj_fields = Some
          [(Name, VStr ''evt_q''), (AttrBits, VInt 0),
           (CbMem, VPtr ''evt_q_cb''), (CbSize, VSize 136),
           (StorageMem, VPtr ''evt_q_queue_mem''), (StorageSize, VSize 4)]\<rparr>)]"
proof (intro conjI)
  show "storage_idents (generate (Mutex ''m'')) = []"
    by (simp add: OS_MUTEX_STATIC_def)
  show "elaborate example_target (generate (Mutex ''m'')) =
   Inr
     [(''m_cb'',
       \<lparr>obj_type = StaticSemaphore_t, obj_len = None, obj_bytes = 80, obj_fields = None\<rparr>),
      (''m_attributes'',
       \<lparr>obj_type = osMutexAttr_t, obj_len = None, obj_bytes = 16,
        obj_fields = Some
          [(Name, VStr ''m''), (AttrBits, VInt 1),
           (CbMem, VPtr ''m_cb''), (CbSize, VSize 80)]\<rparr>)]"
    by (simp add: elaborate_mutex example_defs)
  show "elaborate example_target64
     (generate (MessageQueue ''evt_q'' 1073741825 (Named ''uint32_t''))) =
   Inr
     [(''evt_q_cb'',
       \<lparr>obj_type = StaticQueue_t, obj_len = None, obj_bytes = 136, obj_fields = None\<rparr>),
      (''evt_q_queue_mem'',
       \<lparr>obj_type = uint8_t, obj_len = Some 4294967300, obj_bytes = 4294967300,
        obj_fields = None\<rparr>),
      (''evt_q_attributes'',
       \<lparr>obj_type = osMessageQueueAttr_t, obj_len = None, obj_bytes = 40,
        obj_fields = Some
          [(Name, VStr ''evt_q''), (AttrBits, VInt 0),
           (CbMem, VPtr ''evt_q_cb''), (CbSize, VSize 136),
           (StorageMem, VPtr ''evt_q_queue_mem''), (StorageSize, VSize 4)]\<rparr>)]"
    by (simp add: elaborate_queue example_defs)
qed

subsection \<open>Control-block reference and size\<close>



subsection \<open>Order of the members\<close>

text \<open>
  C4. The thread record consists, in this order, of the name, a zero, the control-block
  reference and size, the stack reference and size, the priority and two zeros; the queue
  record of the name, a zero, the control-block reference and size, the storage reference
  and size. Each size stands as its member holds it and the priority as the cast gives it.
\<close>

theorem descriptor_field_order:
  "(elaborate t (OS_THREAD_STATIC name stack_words priority_level) = Inr env \<longrightarrow>
      fields env (name @ ''_attributes'') =
        [(Name, VStr name),
         (AttrBits, VInt 0),
         (CbMem, VPtr (name @ ''_cb'')),
         (CbSize, VSize (sizeof_type t StaticTask_t)),
         (StorageMem, VPtr (name @ ''_stack'')),
         (StorageSize, VSize ((stack_words * sizeof_type t StackType_t) mod size_member_max t)),
         (Priority, VInt (to_osPriority t priority_level)),
         (Reserved1, VInt 0),
         (Reserved2, VInt 0)]) \<and>
   (elaborate t (OS_MESSAGE_QUEUE_STATIC name' queue_size type) = Inr env' \<longrightarrow>
      (\<exists>n. region_bytes env' (name' @ ''_queue_mem'') = Some n \<and>
        fields env' (name' @ ''_attributes'') =
          [(Name, VStr name'),
           (AttrBits, VInt 0),
           (CbMem, VPtr (name' @ ''_cb'')),
           (CbSize, VSize (sizeof_type t StaticQueue_t)),
           (StorageMem, VPtr (name' @ ''_queue_mem'')),
           (StorageSize, VSize (n mod size_member_max t))]))"
  by (auto simp: elaborate_macro reading_defs split: if_splits)

theorem descriptor_field_order_witness:
  "(\<exists>env. elaborate example_target (OS_THREAD_STATIC ''worker'' 256 24) = Inr env \<and>
      fields env ''worker_attributes'' =
        [(Name, VStr ''worker''), (AttrBits, VInt 0), (CbMem, VPtr ''worker_cb''),
         (CbSize, VSize 92), (StorageMem, VPtr ''worker_stack''), (StorageSize, VSize 1024),
         (Priority, VInt 24), (Reserved1, VInt 0), (Reserved2, VInt 0)]) \<and>
   (\<exists>env. elaborate example_target (OS_MESSAGE_QUEUE_STATIC ''evt_q'' 8 (Named ''uint32_t'')) = Inr env \<and>
      fields env ''evt_q_attributes'' =
        [(Name, VStr ''evt_q''), (AttrBits, VInt 0), (CbMem, VPtr ''evt_q_cb''),
         (CbSize, VSize 80), (StorageMem, VPtr ''evt_q_queue_mem''), (StorageSize, VSize 32)])"
proof -
  obtain env where h: "elaborate example_target (OS_THREAD_STATIC ''worker'' 256 24) = Inr env"
    by (simp add: elaborate_thread example_defs)
  obtain env' where
    h': "elaborate example_target (OS_MESSAGE_QUEUE_STATIC ''evt_q'' 8 (Named ''uint32_t'')) = Inr env'"
    by (simp add: elaborate_queue example_defs)
  have b: "region_bytes env' ''evt_q_queue_mem'' = Some 32"
    using h' by (auto simp: elaborate_queue example_defs reading_defs)
  from descriptor_field_order
    [of example_target "''worker''" 256 24 env "''evt_q''" 8 "Named ''uint32_t''" env'] h h' b
  show ?thesis
    by (auto simp: example_defs)
qed

subsection \<open>Thread: stack, priority, reserved members\<close>

text \<open>
  C5. A thread use with \<open>stack_words\<close> words and a priority level \<open>priority_level\<close>, a
  value of \<open>osPriority_t\<close>, declares a stack of exactly \<open>stack_words\<close> elements of the
  stack word type, and a record whose priority member is \<open>priority_level\<close> and whose
  member after the name and two last members are zero.
\<close>

theorem thread_stack_priority_reserved:
  assumes "elaborate t (OS_THREAD_STATIC name stack_words priority_level) = Inr env"
    and "osPriority_value t priority_level"
  shows "region_type env (name @ ''_stack'') = Some StackType_t \<and>
         region_len env (name @ ''_stack'') = Some stack_words \<and>
         field env (name @ ''_attributes'') Priority = Some (VInt priority_level) \<and>
         field env (name @ ''_attributes'') AttrBits = Some (VInt 0) \<and>
         field env (name @ ''_attributes'') Reserved1 = Some (VInt 0) \<and>
         field env (name @ ''_attributes'') Reserved2 = Some (VInt 0)"
  using assms
  by (auto simp: elaborate_thread reading_defs to_osPriority_value split: if_splits)

text \<open>The example of the specification: \<open>worker\<close>, 256 words, priority 24.\<close>

theorem thread_stack_priority_reserved_witness:
  "\<exists>env. elaborate example_target (OS_THREAD_STATIC ''worker'' 256 24) = Inr env \<and>
     osPriority_value example_target 24 \<and>
     region_type env ''worker_stack'' = Some StackType_t \<and>
     region_len env ''worker_stack'' = Some 256 \<and>
     field env ''worker_attributes'' Priority = Some (VInt 24) \<and>
     field env ''worker_attributes'' AttrBits = Some (VInt 0) \<and>
     field env ''worker_attributes'' Reserved1 = Some (VInt 0) \<and>
     field env ''worker_attributes'' Reserved2 = Some (VInt 0)"
proof -
  obtain env where h: "elaborate example_target (OS_THREAD_STATIC ''worker'' 256 24) = Inr env"
    by (simp add: elaborate_thread example_defs)
  have v: "osPriority_value example_target 24"
    by (simp add: example_defs)
  from thread_stack_priority_reserved [OF h v] h v show ?thesis
    by auto
qed

text \<open>
  A constant outside the range of \<open>osPriority_t\<close> is not kept by the cast: with 32 bits,
  \<open>4294967320\<close> is stored as 24.
\<close>

lemma priority_outside_range_example:
  "\<exists>env. elaborate example_target (OS_THREAD_STATIC ''worker'' 256 4294967320) = Inr env \<and>
     field env ''worker_attributes'' Priority = Some (VInt 24)"
  by (simp add: elaborate_thread example_defs reading_defs)

subsection \<open>Distinct names, distinct identifiers\<close>

text \<open>
  C6. Two macro uses with different logical names should declare different identifiers, so
  that their objects are apart. The queue macro pastes \<^verbatim>\<open>_queue_mem\<close> and the pool macro
  \<^verbatim>\<open>_mem\<close>, the end of the former: a queue called \<open>x\<close> and a pool called \<open>x_queue\<close>
  both declare \<open>x_queue_mem\<close>. With storage of the same size the two uses compile
  together in C, where the second declaration repeats a tentative definition, and the two
  attributes records refer to one array of 32 bytes.
\<close>

theorem queue_and_pool_share_storage:
  "''x'' \<noteq> ''x_queue'' \<and>
   storage_idents (generate (MessageQueue ''x'' 8 (Named ''uint32_t''))) = [''x_queue_mem''] \<and>
   storage_idents (generate (MemoryPool ''x_queue'' 32 uint8_t)) = [''x_queue_mem''] \<and>
   (\<exists>env. elaborate example_target
          (generate (MessageQueue ''x'' 8 (Named ''uint32_t'')) @
           generate (MemoryPool ''x_queue'' 32 uint8_t)) = Inr env \<and>
      field env ''x_attributes'' StorageMem = Some (VPtr ''x_queue_mem'') \<and>
      field env ''x_queue_attributes'' StorageMem = Some (VPtr ''x_queue_mem'') \<and>
      region_bytes env ''x_queue_mem'' = Some 32)"
proof (intro conjI)
  show "''x'' \<noteq> ''x_queue''"
    by simp
  show "storage_idents (generate (MessageQueue ''x'' 8 (Named ''uint32_t''))) = [''x_queue_mem'']"
    by (simp add: macro_defs)
  show "storage_idents (generate (MemoryPool ''x_queue'' 32 uint8_t)) = [''x_queue_mem'']"
    by (simp add: macro_defs)
  show "\<exists>env. elaborate example_target
          (generate (MessageQueue ''x'' 8 (Named ''uint32_t'')) @
           generate (MemoryPool ''x_queue'' 32 uint8_t)) = Inr env \<and>
      field env ''x_attributes'' StorageMem = Some (VPtr ''x_queue_mem'') \<and>
      field env ''x_queue_attributes'' StorageMem = Some (VPtr ''x_queue_mem'') \<and>
      region_bytes env ''x_queue_mem'' = Some 32"
    by (simp add: elaborate_def macro_defs add_object_def example_defs reading_defs)
qed

text \<open>In C++ the same two uses do not compile: the second declaration is a redefinition.\<close>

lemma queue_and_pool_rejected_in_Cplusplus:
  "elaborate (example_target\<lparr>cplusplus := True\<rparr>)
          (generate (MessageQueue ''x'' 8 (Named ''uint32_t'')) @
           generate (MemoryPool ''x_queue'' 32 uint8_t)) = Inl (Redefinition ''x_queue_mem'')"
  by (simp add: elaborate_def macro_defs add_object_def example_defs)

text \<open>
  That pair is the only one. Different names give different control-block identifiers and
  different attributes identifiers, and all identifiers of two uses differ unless one is a
  queue called \<open>n\<close> and the other a pool called \<open>n_queue\<close>.
\<close>

lemma identifiers_of_distinct_names:
  assumes "logical_name r1 \<noteq> logical_name r2"
  shows "set (cb_idents (generate r1)) \<inter> set (cb_idents (generate r2)) = {} \<and>
         set (attr_idents (generate r1)) \<inter> set (attr_idents (generate r2)) = {} \<and>
         (\<not> queue_pool_clash r1 r2 \<and> \<not> queue_pool_clash r2 r1 \<longrightarrow>
            set (map decl_ident (generate r1)) \<inter> set (map decl_ident (generate r2)) = {}) \<and>
         (queue_pool_clash r1 r2 \<longrightarrow>
            storage_idents (generate r1) = storage_idents (generate r2))"
proof (intro conjI impI)
  show "set (cb_idents (generate r1)) \<inter> set (cb_idents (generate r2)) = {}"
    using assms by (simp add: cb_idents_generate)
  show "set (attr_idents (generate r1)) \<inter> set (attr_idents (generate r2)) = {}"
    using assms by (simp add: attr_idents_generate)
  show "set (map decl_ident (generate r1)) \<inter> set (map decl_ident (generate r2)) = {}"
    if "\<not> queue_pool_clash r1 r2 \<and> \<not> queue_pool_clash r2 r1"
    using assms that unfolding idents_generate
    by (cases r1; cases r2) (simp_all add: paste_distinct paste_queue_mem)
  show "storage_idents (generate r1) = storage_idents (generate r2)"
    if "queue_pool_clash r1 r2"
    using that unfolding storage_idents_generate
    by (cases r1; cases r2) simp_all
qed

subsection \<open>The flag of mutex, semaphore and timer\<close>

text \<open>
  C7. In the records of mutex, semaphore and timer the member between the name and the
  control-block reference is the flag: the priority-inheritance constant for the mutex,
  zero for the semaphore and the timer. These three macros compile on every target.
\<close>

theorem flag_between_name_and_control_block:
  "(\<exists>env. elaborate t (OS_MUTEX_STATIC name) = Inr env \<and>
      fields env (name @ ''_attributes'') =
        [(Name, VStr name),
         (AttrBits, VInt (osMutexPrioInherit t)),
         (CbMem, VPtr (name @ ''_cb'')),
         (CbSize, VSize (sizeof_type t StaticSemaphore_t))]) \<and>
   (\<exists>env. elaborate t (OS_SEMAPHORE_STATIC name) = Inr env \<and>
      fields env (name @ ''_attributes'') =
        [(Name, VStr name),
         (AttrBits, VInt 0),
         (CbMem, VPtr (name @ ''_cb'')),
         (CbSize, VSize (sizeof_type t StaticSemaphore_t))]) \<and>
   (\<exists>env. elaborate t (OS_TIMER_STATIC name) = Inr env \<and>
      fields env (name @ ''_attributes'') =
        [(Name, VStr name),
         (AttrBits, VInt 0),
         (CbMem, VPtr (name @ ''_cb'')),
         (CbSize, VSize (sizeof_type t StaticTimer_t))])"
  by (simp add: elaborate_mutex elaborate_semaphore elaborate_timer fields_def)

theorem flag_between_name_and_control_block_witness:
  "(\<exists>env. elaborate example_target (OS_MUTEX_STATIC ''m'') = Inr env \<and>
      fields env ''m_attributes'' =
        [(Name, VStr ''m''), (AttrBits, VInt 1), (CbMem, VPtr ''m_cb''), (CbSize, VSize 80)]) \<and>
   (\<exists>env. elaborate example_target (OS_SEMAPHORE_STATIC ''m'') = Inr env \<and>
      fields env ''m_attributes'' =
        [(Name, VStr ''m''), (AttrBits, VInt 0), (CbMem, VPtr ''m_cb''), (CbSize, VSize 80)]) \<and>
   (\<exists>env. elaborate example_target (OS_TIMER_STATIC ''m'') = Inr env \<and>
      fields env ''m_attributes'' =
        [(Name, VStr ''m''), (AttrBits, VInt 0), (CbMem, VPtr ''m_cb''), (CbSize, VSize 44)])"
proof -
  have v: "osMutexPrioInherit example_target = 1"
    "sizeof_type example_target StaticSemaphore_t = 80"
    "sizeof_type example_target StaticTimer_t = 44"
    by (simp_all add: example_defs)
  from flag_between_name_and_control_block [of example_target "''m''"] show ?thesis
    unfolding v by simp
qed

subsection \<open>The name member\<close>



subsection \<open>Stack size in bytes\<close>

text \<open>
  C9, as amended. The stack-size member of a thread record is in bytes: whenever the size
  of the stack array fits the member, it is \<open>stack_words\<close> times the size of one stack
  word, which is the size of the stack array.
\<close>

theorem stack_size_in_bytes:
  assumes "elaborate t (OS_THREAD_STATIC name stack_words priority_level) = Inr env"
    and "stack_words * sizeof_type t StackType_t < size_member_max t"
  shows "region_bytes env (name @ ''_stack'') = Some (stack_words * sizeof_type t StackType_t) \<and>
         field env (name @ ''_attributes'') StorageSize =
           Some (VSize (stack_words * sizeof_type t StackType_t))"
  using assms
  by (auto simp: elaborate_thread reading_defs split: if_splits)

theorem stack_size_in_bytes_witness:
  "\<exists>env. elaborate example_target (OS_THREAD_STATIC ''worker'' 256 24) = Inr env \<and>
     sizeof_type example_target StackType_t = 4 \<and>
     256 * sizeof_type example_target StackType_t < size_member_max example_target \<and>
     region_bytes env ''worker_stack'' = Some 1024 \<and>
     field env ''worker_attributes'' StorageSize = Some (VSize 1024)"
proof -
  obtain env where h: "elaborate example_target (OS_THREAD_STATIC ''worker'' 256 24) = Inr env"
    by (simp add: elaborate_thread example_defs)
  have w: "sizeof_type example_target StackType_t = 4"
    by (simp add: example_defs)
  have m: "256 * sizeof_type example_target StackType_t < size_member_max example_target"
    by (simp add: example_defs)
  from stack_size_in_bytes [OF h m] h w m show ?thesis
    by auto
qed

text \<open>
  C9 as stated is about every thread record. On the 64-bit target a stack of 536870913
  words of 8 bytes compiles and has 4294967304 bytes, which the 32-bit stack-size member
  cannot hold: it reads 8.
\<close>

theorem stack_size_member_counterexample:
  "elaborate example_target64 (OS_THREAD_STATIC ''big'' 536870913 24) =
   Inr
     [(''big_stack'',
       \<lparr>obj_type = StackType_t, obj_len = Some 536870913, obj_bytes = 4294967304,
        obj_fields = None\<rparr>),
      (''big_cb'',
       \<lparr>obj_type = StaticTask_t, obj_len = None, obj_bytes = 168, obj_fields = None\<rparr>),
      (''big_attributes'',
       \<lparr>obj_type = osThreadAttr_t, obj_len = None, obj_bytes = 64,
        obj_fields = Some
          [(Name, VStr ''big''), (AttrBits, VInt 0),
           (CbMem, VPtr ''big_cb''), (CbSize, VSize 168),
           (StorageMem, VPtr ''big_stack''), (StorageSize, VSize 8),
           (Priority, VInt 24), (Reserved1, VInt 0), (Reserved2, VInt 0)]\<rparr>)] \<and>
   536870913 * sizeof_type example_target64 StackType_t = 4294967304"
  by (simp add: elaborate_thread example_defs)

subsection \<open>Priority inheritance\<close>

text \<open>
  C10. The flag member of every mutex record is the priority-inheritance constant (the
  macro has no parameter for it), and the flag member of every other kind is zero.
\<close>

theorem mutex_priority_inheritance_unconditional:
  assumes "elaborate t (generate r) = Inr env"
  shows "field env (logical_name r @ ''_attributes'') AttrBits =
           Some (VInt (if is_mutex r then osMutexPrioInherit t else 0))"
  using assms
  by (cases r) (auto simp: elaborate_macro reading_defs split: if_splits)

theorem mutex_priority_inheritance_unconditional_witness:
  "(\<exists>env. elaborate example_target (generate (Mutex ''m'')) = Inr env \<and>
      field env ''m_attributes'' AttrBits = Some (VInt 1)) \<and>
   (\<exists>env. elaborate example_target (generate (Timer ''tick'')) = Inr env \<and>
      field env ''tick_attributes'' AttrBits = Some (VInt 0))"
proof -
  obtain env where h: "elaborate example_target (generate (Mutex ''m'')) = Inr env"
    by (simp add: elaborate_mutex)
  obtain env' where h': "elaborate example_target (generate (Timer ''tick'')) = Inr env'"
    by (simp add: elaborate_timer)
  have v: "osMutexPrioInherit example_target = 1"
    by (simp add: example_defs)
  from mutex_priority_inheritance_unconditional [OF h]
    mutex_priority_inheritance_unconditional [OF h'] h h' v
  show ?thesis by auto
qed

end
